theory Spec2Isabelle
  imports Complex_Main
begin

section \<open>Number model and errors\<close>

text \<open>
  The simulator computes with Python and numpy double precision numbers. They are
  embedded as exact reals: rounding, overflow and the non-finite values (inf, nan) are
  not part of the model. The one exception is the clock of \<open>euler\<close>, which decides how
  often the loop runs: a second model of \<open>euler\<close> takes it in double arithmetic. Two kinds
  of division occur in the source.
  \<^item> In \<open>Stage.__init__\<close> the operands are plain Python numbers, for which a zero
    divisor raises \<open>ZeroDivisionError\<close>; the model returns that error.
  \<^item> In \<open>GetDrag\<close> and \<open>EqOfM\<close> the operands are numpy scalars, for which a zero
    divisor raises nothing and execution goes on with inf or nan; the model goes on as
    well, with the quotient HOL assigns. The two agree wherever the divisor is not zero
    (a radius, a mass and a speed of sound other than zero), and the theorem on the value
    of \<open>GetDrag\<close> assumes a positive temperature for that reason.

  Indexing a sequence out of range raises \<open>IndexError\<close>, and reading a local variable that
  no branch of an \<open>if\<close>/\<open>elif\<close> chain has assigned raises \<open>UnboundLocalError\<close>.
\<close>

datatype error = IndexError | ZeroDivisionError | UnboundLocalError

text \<open>Sequencing of fallible computations: the first error ends the computation.\<close>

definition bindE :: "error + 'a \<Rightarrow> ('a \<Rightarrow> error + 'b) \<Rightarrow> error + 'b" where
  "bindE m f = (case m of Inl e \<Rightarrow> Inl e | Inr x \<Rightarrow> f x)"

definition deg2rad :: "real \<Rightarrow> real" where
  "deg2rad x = x * (pi / 180)"

text \<open>\<open>numpy.arctan2 y x\<close>: the angle of the point \<open>(x, y)\<close> in \<open>(-pi, pi]\<close>, and 0 at the origin.\<close>

definition arctan2 :: "real \<Rightarrow> real \<Rightarrow> real" where
  "arctan2 y x =
     (if 0 < x then arctan (y / x)
      else if x < 0 then (if 0 \<le> y then arctan (y / x) + pi else arctan (y / x) - pi)
      else if 0 < y then pi / 2
      else if y < 0 then - (pi / 2)
      else 0)"

section \<open>Stage\<close>

record Stage =
  Name :: string
  Thrust :: real
  Cd :: real
  A :: real
  Isp :: real
  Ms :: real
  Mf :: real
  Mp :: real
  mdot :: real
  tb :: real
  M :: real

text \<open>
  \<open>Stage.__init__\<close> (lines 20 to 34): stores the eight arguments and derives the mass
  flow rate, the burn time and the total mass. The two divisions are Python divisions.
\<close>

definition Stage_init ::
  "string \<Rightarrow> real \<Rightarrow> real \<Rightarrow> real \<Rightarrow> real \<Rightarrow> real \<Rightarrow> real \<Rightarrow> real \<Rightarrow> error + Stage" where
  "Stage_init name thrust cd a isp ms mf mp =
     (if isp * 9.81 = 0 then Inl ZeroDivisionError
      else let mdot' = thrust / (isp * 9.81) in
        if mdot' = 0 then Inl ZeroDivisionError
        else Inr \<lparr>Name = name, Thrust = thrust, Cd = cd, A = a, Isp = isp,
                  Ms = ms, Mf = mf, Mp = mp,
                  mdot = mdot', tb = mf / mdot', M = ms + mf + mp\<rparr>)"

text \<open>The four drag coefficient expressions of \<open>GetDrag\<close> (lines 52, 56, 60 and 63).\<close>

definition Cd_subsonic :: "real \<Rightarrow> real" where
  "Cd_subsonic m = - 0.0415 * m ^ 3 + 0.3892 * m ^ 2 - 0.2614 * m + 0.303"

definition Cd_supersonic :: "real \<Rightarrow> real" where
  "Cd_supersonic m = - 0.049 * m ^ 4 + 0.5664 * m ^ 3 - 2.3265 * m ^ 2 + 3.8512 * m - 1.6625"

definition Cd_hypersonic :: "real \<Rightarrow> real" where
  "Cd_hypersonic m = - 0.0037 * m ^ 3 + 0.0695 * m ^ 2 - 0.4105 * m + 0.9732"

definition Cd_limit :: real where
  "Cd_limit = 0.255"

text \<open>
  \<open>Stage.GetDrag\<close> (lines 37 to 68). The atmosphere module is not among the sources;
  its function \<open>atmosphere.Atmosphere\<close>, from an altitude to a temperature and a density,
  is the parameter \<open>atm\<close>, a function that returns at every altitude. The chain of \<open>if\<close>/\<open>elif\<close> has no final \<open>else\<close>: when no
  condition holds, \<open>Cd\<close> is unassigned at line 65. Inside the definition \<open>A\<close>, \<open>M\<close> and
  \<open>Cd\<close> are the local variables of the source (speed of sound, Mach number, drag
  coefficient); the reference area \<open>self.A\<close> is written \<open>Stage.A self\<close>.
\<close>

definition GetDrag ::
  "(real \<Rightarrow> real \<times> real) \<Rightarrow> Stage \<Rightarrow> real \<Rightarrow> real \<Rightarrow> real \<Rightarrow> real \<Rightarrow> error + real \<times> real" where
  "GetDrag atm self h V vx vy =
     (let gamma = 1.14;
          R = 287;
          (T, rho) = atm h;
          A = sqrt (gamma * R * T);
          M = V / A
      in bindE (if M \<le> 1.25 then Inr (Cd_subsonic M)
                else if M > 1.25 \<and> M \<le> 4 then Inr (Cd_supersonic M)
                else if M > 4 \<and> M \<le> 10 then Inr (Cd_hypersonic M)
                else if M > 10 then Inr Cd_limit
                else Inl UnboundLocalError)
           (\<lambda>Cd. Inr (0.5 * rho * vx * V * Stage.A self * Cd,
                      0.5 * rho * vy * V * Stage.A self * Cd)))"

section \<open>Equations of motion\<close>

definition notice :: string where
  "notice = ''Solution terminated, flight altitude less than 0''"

text \<open>
  \<open>EqOfM\<close> (lines 70 to 145). The result is the pair of the derivative and the vehicle
  state vector \<open>[Tx, Ty, Dx, Dy, M, phi]\<close>, together with the lines printed.
\<close>

definition EqOfM ::
  "(real \<Rightarrow> real \<times> real) \<Rightarrow> real list \<Rightarrow> real \<Rightarrow> Stage list \<Rightarrow>
     error + ((real list \<times> real list) \<times> string list)" where
  "EqOfM atm STATE t stages =
     (if length STATE < 4 then Inl IndexError
      else
        let mu = 3.986 * 10 ^ 14;
            Re = 6378000;
            rx = STATE ! 0;
            ry = STATE ! 1;
            vx = STATE ! 2;
            vy = STATE ! 3;
            R = (rx ^ 2 + ry ^ 2) powr 0.5;
            V = (vx ^ 2 + vy ^ 2) powr 0.5;
            h = R - Re;
            gx = - mu * rx / (rx ^ 2 + ry ^ 2) powr 1.5;
            gy = - mu * ry / (rx ^ 2 + ry ^ 2) powr 1.5
        in
        if length stages < 2 then Inl IndexError
        else
          let F9S1 = stages ! 0;
              F9S2 = stages ! 1
          in
          bindE (if t \<le> tb F9S1 then Inr (Stage.M F9S1 - mdot F9S1 * t, Thrust F9S1)
                 else if t > tb F9S1 then
                   Inr (Stage.M F9S2 - mdot F9S2 * (t - tb F9S1), Thrust F9S2)
                 else Inl UnboundLocalError)
            (\<lambda>(M, TT).
               let phi = arctan2 vy vx;
                   psi = deg2rad 90;
                   kick = deg2rad 83;
                   psi = (if t < tb F9S1 + 300 then
                            (if h > 100 then
                               (if phi > kick then deg2rad 87
                                else if phi \<le> kick then phi
                                else psi)
                             else psi)
                          else psi);
                   Tx = TT * cos psi;
                   Ty = TT * sin psi
               in
               bindE (GetDrag atm F9S1 (R - 6378000) V vx vy)
                 (\<lambda>D.
                    let Dx = fst D;
                        Dy = snd D
                    in Inr (([vx, vy, Tx / M - Dx / M + gx, Ty / M - Dy / M + gy],
                             [Tx, Ty, Dx, Dy, M, phi]),
                            (if t > 0 then (if R - Re \<le> 0 then [notice] else []) else [])))))"

section \<open>Euler integration\<close>

text \<open>
  \<open>len(np.arange(start, stop, step))\<close>: the least number of steps that reach \<open>stop\<close>, and
  none when \<open>stop\<close> lies behind \<open>start\<close>. A zero step is refused by numpy.

  The array length comes from this quotient, the number of iterations from the clock
  \<open>t\<close> that the loop accumulates. In exact arithmetic the two agree for a positive step
  (lemma \<open>clock_lt_iff\<close>); what rounding does to them is the subject of the next section.
\<close>

definition arange_len :: "real \<Rightarrow> real \<Rightarrow> real \<Rightarrow> error + nat" where
  "arange_len start stop step =
     (if step = 0 then Inl ZeroDivisionError else Inr (nat \<lceil>(stop - start) / step\<rceil>))"

text \<open>
  The \<open>while\<close> loop of \<open>euler\<close> (lines 177 to 189), on the local variables of the source.
  Reading row \<open>n\<close> and writing row \<open>n + 1\<close> of an array raise \<open>IndexError\<close> beyond its end,
  which also bounds the number of iterations.
\<close>

function euler_loop ::
  "(real \<Rightarrow> real \<times> real) \<Rightarrow> real \<Rightarrow> real \<Rightarrow> Stage list \<Rightarrow>
     real list \<Rightarrow> real list \<Rightarrow> real list \<Rightarrow> real list \<Rightarrow> real list \<Rightarrow> real list list \<Rightarrow>
     string list \<Rightarrow> real \<Rightarrow> nat \<Rightarrow>
     error + (real list \<times> real list \<times> real list \<times> real list \<times> real list \<times> real list list \<times>
              string list)" where
  "euler_loop atm dt Tf stages X Y Vx Vy T_array v_states out t n =
     (if t < Tf then
        (if n < length X \<and> n < length Y \<and> n < length Vx \<and> n < length Vy then
           (case EqOfM atm [X ! n, Y ! n, Vx ! n, Vy ! n] t stages of
              Inl e \<Rightarrow> Inl e
            | Inr (S, printed) \<Rightarrow>
                if n + 1 < length X \<and> n + 1 < length Y \<and> n + 1 < length Vx \<and>
                   n + 1 < length Vy \<and> n < length v_states \<and> n + 1 < length T_array
                then
                  euler_loop atm dt Tf stages
                    (X[n + 1 := X ! n + dt * fst S ! 0])
                    (Y[n + 1 := Y ! n + dt * fst S ! 1])
                    (Vx[n + 1 := Vx ! n + dt * fst S ! 2])
                    (Vy[n + 1 := Vy ! n + dt * fst S ! 3])
                    (T_array[n + 1 := t + dt])
                    (v_states[n := snd S])
                    (out @ printed)
                    (t + dt)
                    (n + 1)
                else Inl IndexError)
         else Inl IndexError)
      else Inr (X, Y, Vx, Vy, T_array, v_states, out))"
  by pat_completeness auto
termination
  by (relation "measure (\<lambda>(atm, dt, Tf, stages, X, Y, Vx, Vy, T_array, v_states, out, t, n).
        length X - n)") auto

text \<open>
  \<open>euler\<close> (lines 148 to 199). The result is the pair of the state table, with rows
  \<open>[t, x, y, vx, vy]\<close>, and the table of vehicle state vectors, together with the lines
  printed.
\<close>

definition euler ::
  "(real \<Rightarrow> real \<times> real) \<Rightarrow> real list \<Rightarrow> real \<Rightarrow> real \<Rightarrow> real \<Rightarrow> Stage list \<Rightarrow>
     error + ((real list list \<times> real list list) \<times> string list)" where
  "euler atm STATE0 t0 dt Tf stages =
     bindE (arange_len t0 Tf dt)
       (\<lambda>steps.
          let X = replicate (steps + 1) 0;
              Y = replicate (steps + 1) 0;
              Vx = replicate (steps + 1) 0;
              Vy = replicate (steps + 1) 0;
              T_array = replicate (steps + 1) 0;
              v_states = replicate (steps + 1) (replicate 6 0)
          in
          if length STATE0 < 4 then Inl IndexError
          else
            let X = X[0 := STATE0 ! 0];
                Y = Y[0 := STATE0 ! 1];
                Vx = Vx[0 := STATE0 ! 2];
                Vy = Vy[0 := STATE0 ! 3];
                t = t0;
                n = 0
            in
            bindE (euler_loop atm dt Tf stages X Y Vx Vy T_array v_states [] t n)
              (\<lambda>(X, Y, Vx, Vy, T_array, v_states, out).
                 let STATEF = map (\<lambda>i. [T_array ! i, X ! i, Y ! i, Vx ! i, Vy ! i])
                                [0..<steps + 1]
                 in Inr ((STATEF, v_states), out)))"

section \<open>The clock in double arithmetic\<close>

text \<open>
  Rounding to the nearest double, ties to even: a real in the normal range of the doubles
  is rounded to 53 significant bits (no overflow, no subnormal numbers). \<open>pow2 e\<close> is the
  power of two with the exponent \<open>e\<close>.
\<close>

definition pow2 :: "int \<Rightarrow> real" where
  "pow2 e = (if 0 \<le> e then 2 ^ nat e else 1 / 2 ^ nat (- e))"

definition round_even :: "real \<Rightarrow> int" where
  "round_even q =
     (let f = \<lfloor>q\<rfloor>
      in if q - of_int f < 1 / 2 then f
         else if q - of_int f > 1 / 2 then f + 1
         else if even f then f else f + 1)"

definition double :: "real \<Rightarrow> real" where
  "double x =
     (if x = 0 then 0
      else let ulp = pow2 (\<lfloor>log 2 \<bar>x\<bar>\<rfloor> - 52)
           in of_int (round_even (x / ulp)) * ulp)"

text \<open>
  \<open>len(np.arange(start, stop, step))\<close> as numpy computes it: the difference and the quotient
  are rounded before the ceiling is taken.
\<close>

definition arange_len_double :: "real \<Rightarrow> real \<Rightarrow> real \<Rightarrow> error + nat" where
  "arange_len_double start stop step =
     (if step = 0 then Inl ZeroDivisionError
      else Inr (nat \<lceil>double (double (stop - start) / step)\<rceil>))"

text \<open>
  The loop of \<open>euler\<close> and \<open>euler\<close> itself once more, with the clock \<open>t = t + dt\<close> of line 187
  and the array length of line 156 in double arithmetic. They decide the control flow of
  \<open>euler\<close>; the states stay exact, as above. The arguments \<open>t0\<close>, \<open>dt\<close> and \<open>Tf\<close> are
  doubles.
\<close>

function euler_loop_double ::
  "(real \<Rightarrow> real \<times> real) \<Rightarrow> real \<Rightarrow> real \<Rightarrow> Stage list \<Rightarrow>
     real list \<Rightarrow> real list \<Rightarrow> real list \<Rightarrow> real list \<Rightarrow> real list \<Rightarrow> real list list \<Rightarrow>
     string list \<Rightarrow> real \<Rightarrow> nat \<Rightarrow>
     error + (real list \<times> real list \<times> real list \<times> real list \<times> real list \<times> real list list \<times>
              string list)" where
  "euler_loop_double atm dt Tf stages X Y Vx Vy T_array v_states out t n =
     (if t < Tf then
        (if n < length X \<and> n < length Y \<and> n < length Vx \<and> n < length Vy then
           (case EqOfM atm [X ! n, Y ! n, Vx ! n, Vy ! n] t stages of
              Inl e \<Rightarrow> Inl e
            | Inr (S, printed) \<Rightarrow>
                if n + 1 < length X \<and> n + 1 < length Y \<and> n + 1 < length Vx \<and>
                   n + 1 < length Vy \<and> n < length v_states \<and> n + 1 < length T_array
                then
                  euler_loop_double atm dt Tf stages
                    (X[n + 1 := X ! n + dt * fst S ! 0])
                    (Y[n + 1 := Y ! n + dt * fst S ! 1])
                    (Vx[n + 1 := Vx ! n + dt * fst S ! 2])
                    (Vy[n + 1 := Vy ! n + dt * fst S ! 3])
                    (T_array[n + 1 := double (t + dt)])
                    (v_states[n := snd S])
                    (out @ printed)
                    (double (t + dt))
                    (n + 1)
                else Inl IndexError)
         else Inl IndexError)
      else Inr (X, Y, Vx, Vy, T_array, v_states, out))"
  by pat_completeness auto
termination
  by (relation "measure (\<lambda>(atm, dt, Tf, stages, X, Y, Vx, Vy, T_array, v_states, out, t, n).
        length X - n)") auto

definition euler_double ::
  "(real \<Rightarrow> real \<times> real) \<Rightarrow> real list \<Rightarrow> real \<Rightarrow> real \<Rightarrow> real \<Rightarrow> Stage list \<Rightarrow>
     error + ((real list list \<times> real list list) \<times> string list)" where
  "euler_double atm STATE0 t0 dt Tf stages =
     bindE (arange_len_double t0 Tf dt)
       (\<lambda>steps.
          let X = replicate (steps + 1) 0;
              Y = replicate (steps + 1) 0;
              Vx = replicate (steps + 1) 0;
              Vy = replicate (steps + 1) 0;
              T_array = replicate (steps + 1) 0;
              v_states = replicate (steps + 1) (replicate 6 0)
          in
          if length STATE0 < 4 then Inl IndexError
          else
            let X = X[0 := STATE0 ! 0];
                Y = Y[0 := STATE0 ! 1];
                Vx = Vx[0 := STATE0 ! 2];
                Vy = Vy[0 := STATE0 ! 3];
                t = t0;
                n = 0
            in
            bindE (euler_loop_double atm dt Tf stages X Y Vx Vy T_array v_states [] t n)
              (\<lambda>(X, Y, Vx, Vy, T_array, v_states, out).
                 let STATEF = map (\<lambda>i. [T_array ! i, X ! i, Y ! i, Vx ! i, Vy ! i])
                                [0..<steps + 1]
                 in Inr ((STATEF, v_states), out)))"

text \<open>The clock at the head of iteration \<open>k\<close> of that loop, started at \<open>t\<close>.\<close>

fun clock_double :: "real \<Rightarrow> real \<Rightarrow> nat \<Rightarrow> real" where
  "clock_double t dt 0 = t"
| "clock_double t dt (Suc k) = clock_double (double (t + dt)) dt k"

section \<open>Concrete inputs\<close>

text \<open>
  The two stages that \<open>main\<close> constructs (lines 213 and 214), and a constant atmosphere
  (288.15 K, 1.225 kg/m3) to run the simulator on.
\<close>

definition F9S1 :: Stage where
  "F9S1 = projr (Stage_init ''Stage 1'' 7426000 0.3 10.75 282 27200 411000 116000)"

definition F9S2 :: Stage where
  "F9S2 = projr (Stage_init ''Stage 2'' 934000 0.3 10.75 348 4500 111500 0)"

definition sea_level_atm :: "real \<Rightarrow> real \<times> real" where
  "sea_level_atm h = (288.15, 1.225)"

section \<open>The specification's notions\<close>

text \<open>
  The definitions of this section follow the words of the specification; the theorems
  compare them with the functions above.
\<close>

text \<open>
  The drag coefficient curve of section 4.2 of the specification: four regimes with
  breakpoints at Mach 1.25, 4 and 10, each with its polynomial, and the constant 0.255
  above Mach 10.
\<close>

definition Cd_curve :: "real \<Rightarrow> real" where
  "Cd_curve m =
     (if m \<le> 1.25 then - 0.0415 * m ^ 3 + 0.3892 * m ^ 2 - 0.2614 * m + 0.303
      else if m \<le> 4 then
        - 0.049 * m ^ 4 + 0.5664 * m ^ 3 - 2.3265 * m ^ 2 + 3.8512 * m - 1.6625
      else if m \<le> 10 then - 0.0037 * m ^ 3 + 0.0695 * m ^ 2 - 0.4105 * m + 0.9732
      else 0.255)"

text \<open>Adjacent expressions of the curve agree within \<open>eps\<close> at each of the three breakpoints.\<close>

definition Cd_continuous_within :: "real \<Rightarrow> bool" where
  "Cd_continuous_within eps =
     (\<bar>Cd_subsonic 1.25 - Cd_supersonic 1.25\<bar> \<le> eps \<and>
      \<bar>Cd_supersonic 4 - Cd_hypersonic 4\<bar> \<le> eps \<and>
      \<bar>Cd_hypersonic 10 - Cd_limit\<bar> \<le> eps)"

text \<open>Active stage selection by elapsed time.\<close>

definition active_mass :: "Stage \<Rightarrow> Stage \<Rightarrow> real \<Rightarrow> real" where
  "active_mass stage1 stage2 t =
     (if t \<le> tb stage1 then Stage.M stage1 - mdot stage1 * t
      else Stage.M stage2 - mdot stage2 * (t - tb stage1))"

definition active_thrust :: "Stage \<Rightarrow> Stage \<Rightarrow> real \<Rightarrow> real" where
  "active_thrust stage1 stage2 t = (if t \<le> tb stage1 then Thrust stage1 else Thrust stage2)"

text \<open>Altitude and speed of a state \<open>[x, y, vx, vy]\<close>.\<close>

definition altitude :: "real list \<Rightarrow> real" where
  "altitude STATE = sqrt ((STATE ! 0) ^ 2 + (STATE ! 1) ^ 2) - 6378000"

definition speed :: "real list \<Rightarrow> real" where
  "speed STATE = sqrt ((STATE ! 2) ^ 2 + (STATE ! 3) ^ 2)"

text \<open>
  The thrust pointing angle: 90 degrees by default; inside the window of time and
  altitude, 87 degrees when the flight path angle exceeds 83 degrees and the flight path
  angle otherwise.
\<close>

definition thrust_angle :: "real \<Rightarrow> real \<Rightarrow> real \<Rightarrow> real \<Rightarrow> real" where
  "thrust_angle t tb1 h phi =
     (if t < tb1 + 300 \<and> h > 100 then (if phi > deg2rad 83 then deg2rad 87 else phi)
      else deg2rad 90)"



section \<open>Loop invariants\<close>




section \<open>Auxiliary facts\<close>

declare euler_loop.simps [simp del]

lemma bindE_Inr [simp]: "bindE (Inr x) f = f x"
  by (simp add: bindE_def)

lemma bindE_Inl [simp]: "bindE (Inl e) f = Inl e"
  by (simp add: bindE_def)

text \<open>\<open>GetDrag\<close> and \<open>EqOfM\<close> in closed form; no branch leaves a variable unassigned.\<close>

lemma GetDrag_eq:
  "GetDrag atm self h V vx vy =
     Inr (0.5 * snd (atm h) * vx * V * A self * Cd_curve (V / sqrt (1.14 * 287 * fst (atm h))),
          0.5 * snd (atm h) * vy * V * A self * Cd_curve (V / sqrt (1.14 * 287 * fst (atm h))))"
  by (simp add: GetDrag_def Cd_curve_def Cd_subsonic_def Cd_supersonic_def Cd_hypersonic_def
      Cd_limit_def Let_def split: prod.splits)

lemma EqOfM_eq:
  assumes "4 \<le> length STATE" and "2 \<le> length stages"
  shows "EqOfM atm STATE t stages =
     (let rx = STATE ! 0; ry = STATE ! 1; vx = STATE ! 2; vy = STATE ! 3;
          s1 = stages ! 0; s2 = stages ! 1;
          m = active_mass s1 s2 t;
          TT = active_thrust s1 s2 t;
          phi = arctan2 vy vx;
          psi = thrust_angle t (tb s1) (altitude STATE) phi;
          D = GetDrag atm s1 (altitude STATE) (speed STATE) vx vy;
          Dx = fst (projr D); Dy = snd (projr D);
          gx = - (3.986 * 10 ^ 14) * rx / (rx ^ 2 + ry ^ 2) powr 1.5;
          gy = - (3.986 * 10 ^ 14) * ry / (rx ^ 2 + ry ^ 2) powr 1.5
      in Inr (([vx, vy, TT * cos psi / m - Dx / m + gx, TT * sin psi / m - Dy / m + gy],
               [TT * cos psi, TT * sin psi, Dx, Dy, m, phi]),
              (if 0 < t \<and> altitude STATE \<le> 0 then [notice] else [])))"
  using assms
  by (simp add: EqOfM_def Let_def GetDrag_eq active_mass_def active_thrust_def thrust_angle_def
      altitude_def speed_def powr_half_sqrt)

lemma EqOfM_returns:
  assumes "2 \<le> length stages"
  shows "\<exists>S pr. EqOfM atm [a, b, c, d] t stages = Inr (S, pr) \<and> set pr \<subseteq> {notice} \<and>
           length (fst S) = 4 \<and> length (snd S) = 6"
  using assms by (auto simp add: EqOfM_eq Let_def)










text \<open>The concrete inputs.\<close>

lemma F9S1_eq: "Stage_init ''Stage 1'' 7426000 0.3 10.75 282 27200 411000 116000 = Inr F9S1"
  by (simp add: F9S1_def Stage_init_def)

lemma F9S2_eq: "Stage_init ''Stage 2'' 934000 0.3 10.75 348 4500 111500 0 = Inr F9S2"
  by (simp add: F9S2_def Stage_init_def)

lemma altitude_on_axis: "altitude [0, y, a, b] = \<bar>y\<bar> - 6378000"
  by (simp add: altitude_def)

lemma cube_powr:
  assumes "0 < (x::real)"
  shows "(x ^ 2) powr 1.5 = x ^ 3"
proof -
  have "(x ^ 2) powr 1.5 = (x powr 2) powr (3 / 2)"
    using assms by (simp add: powr_numeral)
  also have "\<dots> = x powr 3"
    by (simp add: powr_powr)
  also have "\<dots> = x ^ 3"
    using assms by (simp add: powr_numeral)
  finally show ?thesis .
qed

text \<open>
  The vehicle of \<open>main\<close> on the launch pad, one second after the start: thrust straight up,
  no drag, and the notice, since the altitude 0 counts as not above the ground.
\<close>

lemma EqOfM_on_pad_at_1:
  "EqOfM sea_level_atm [0, 6378000, 0, 0] 1 [F9S1, F9S2] =
     Inr (([0, 0, 0, 7426000 / (554200 - 7426000 / (282 * 9.81)) - 3.986 * 10 ^ 14 / 6378000 ^ 2],
           [0, 7426000, 0, 0, 554200 - 7426000 / (282 * 9.81), 0]), [notice])"
  using cube_powr [of 6378000]
  by (simp add: EqOfM_eq Let_def active_mass_def active_thrust_def thrust_angle_def
      altitude_on_axis arctan2_def deg2rad_def GetDrag_eq speed_def F9S1_def F9S2_def
      Stage_init_def sea_level_atm_def)

lemma stage_jump:
  "active_mass F9S1 F9S2 (tb F9S1) = 143200 \<and> active_thrust F9S1 F9S2 (tb F9S1) = 7426000 \<and>
   active_mass F9S1 F9S2 (tb F9S1 + 1) = 116000 - mdot F9S2 \<and>
   active_thrust F9S1 F9S2 (tb F9S1 + 1) = 934000"
  by (simp add: active_mass_def active_thrust_def F9S1_def F9S2_def Stage_init_def)

lemma kick_example:
  "thrust_angle 10 (tb F9S1) (altitude [0, 6379000, 0, 100]) (arctan2 100 0) = deg2rad 87"
  using pi_gt_zero
  by (simp add: thrust_angle_def altitude_on_axis arctan2_def deg2rad_def F9S1_def Stage_init_def)

lemma Cd_gaps:
  "Cd_subsonic 1.25 - Cd_supersonic 1.25 = 0.00035546875"
  "Cd_supersonic 4 - Cd_hypersonic 4 = 0.0175"
  "Cd_limit - Cd_hypersonic 10 = 0.1368"
  by (simp_all add: Cd_subsonic_def Cd_supersonic_def Cd_hypersonic_def Cd_limit_def power_def)

text \<open>Evaluating the rounding, given the binary exponent of the argument.\<close>

lemma pow2_powr: "pow2 e = 2 powr of_int e"
  by (simp add: pow2_def powr_int)

lemma double_eval:
  assumes "pow2 e \<le> \<bar>x\<bar>" and "\<bar>x\<bar> < pow2 (e + 1)"
  shows "double x = of_int (round_even (x / pow2 (e - 52))) * pow2 (e - 52)"
proof -
  have pos: "0 < \<bar>x\<bar>"
    using assms(1) by (simp add: pow2_powr) (smt (verit) powr_gt_zero)
  have "\<lfloor>log 2 \<bar>x\<bar>\<rfloor> = e"
    using assms pos by (simp add: floor_log_eq_powr_iff pow2_powr)
  then show ?thesis
    using pos by (simp add: double_def Let_def)
qed

lemma dt_double: "double 0.1 = 3602879701896397 / 36028797018963968"
  by (subst double_eval [of "- 4"]) (simp_all add: pow2_def round_even_def Let_def)

lemma double_1: "double (1 - 0) = 1"
  by (subst double_eval [of 0]) (simp_all add: pow2_def round_even_def Let_def)

lemma double_quotient: "double (1 / (3602879701896397 / 36028797018963968)) = 10"
  by (subst double_eval [of 3]) (simp_all add: pow2_def round_even_def Let_def)

lemma clock_add_1:
  "double (0 + 3602879701896397 / 36028797018963968) = 3602879701896397 / 36028797018963968"
  by (subst double_eval [of "- 4"]) (simp_all add: pow2_def round_even_def Let_def)

lemma clock_add_2:
  "double (3602879701896397 / 36028797018963968 + 3602879701896397 / 36028797018963968)
     = 3602879701896397 / 18014398509481984"
  by (subst double_eval [of "- 3"]) (simp_all add: pow2_def round_even_def Let_def)

lemma clock_add_3:
  "double (3602879701896397 / 18014398509481984 + 3602879701896397 / 36028797018963968)
     = 1351079888211149 / 4503599627370496"
  by (subst double_eval [of "- 2"]) (simp_all add: pow2_def round_even_def Let_def)

lemma clock_add_4:
  "double (1351079888211149 / 4503599627370496 + 3602879701896397 / 36028797018963968)
     = 3602879701896397 / 9007199254740992"
  by (subst double_eval [of "- 2"]) (simp_all add: pow2_def round_even_def Let_def)

lemma clock_add_5:
  "double (3602879701896397 / 9007199254740992 + 3602879701896397 / 36028797018963968) = 1 / 2"
  by (subst double_eval [of "- 1"]) (simp_all add: pow2_def round_even_def Let_def)

lemma clock_add_6:
  "double (1 / 2 + 3602879701896397 / 36028797018963968) = 5404319552844595 / 9007199254740992"
  by (subst double_eval [of "- 1"]) (simp_all add: pow2_def round_even_def Let_def)

lemma clock_add_7:
  "double (5404319552844595 / 9007199254740992 + 3602879701896397 / 36028797018963968)
     = 3152519739159347 / 4503599627370496"
  by (subst double_eval [of "- 1"]) (simp_all add: pow2_def round_even_def Let_def)

lemma clock_add_8:
  "double (3152519739159347 / 4503599627370496 + 3602879701896397 / 36028797018963968)
     = 7205759403792793 / 9007199254740992"
  by (subst double_eval [of "- 1"]) (simp_all add: pow2_def round_even_def Let_def)

lemma clock_add_9:
  "double (7205759403792793 / 9007199254740992 + 3602879701896397 / 36028797018963968)
     = 2026619832316723 / 2251799813685248"
  by (subst double_eval [of "- 1"]) (simp_all add: pow2_def round_even_def Let_def)

lemma clock_add_10:
  "double (2026619832316723 / 2251799813685248 + 3602879701896397 / 36028797018963968)
     = 9007199254740991 / 9007199254740992"
  by (subst double_eval [of "- 1"]) (simp_all add: pow2_def round_even_def Let_def)

text \<open>
  Started at row \<open>n\<close> with one row left for each of the steps to come, the loop overruns
  the arrays when the clock is still below \<open>Tf\<close> at the head of one iteration more.
\<close>

declare euler_loop_double.simps [simp del]

lemma euler_loop_double_overrun:
  assumes st: "2 \<le> length stages"
  shows "n \<le> steps \<Longrightarrow> \<forall>k\<le>steps - n. clock_double t dt k < Tf \<Longrightarrow>
    length X = steps + 1 \<Longrightarrow> length Y = steps + 1 \<Longrightarrow> length Vx = steps + 1 \<Longrightarrow>
    length Vy = steps + 1 \<Longrightarrow> length T_array = steps + 1 \<Longrightarrow>
    length v_states = steps + 1 \<Longrightarrow>
    euler_loop_double atm dt Tf stages X Y Vx Vy T_array v_states out t n = Inl IndexError"
proof (induction "steps - n" arbitrary: n t X Y Vx Vy T_array v_states out)
  case 0
  then have n: "n = steps" by simp
  have lt: "t < Tf"
    using "0.prems"(2) by (metis clock_double.simps(1) le0)
  obtain S pr where S: "EqOfM atm [X ! n, Y ! n, Vx ! n, Vy ! n] t stages = Inr (S, pr)"
    using EqOfM_returns [OF st] by blast
  show ?case
    using lt S n "0.prems"(3-8) by (subst euler_loop_double.simps) simp
next
  case (Suc m)
  then have n: "n < steps" by simp
  have lt: "t < Tf"
    using Suc.prems(2) by (metis clock_double.simps(1) le0)
  obtain S pr where S: "EqOfM atm [X ! n, Y ! n, Vx ! n, Vy ! n] t stages = Inr (S, pr)"
    using EqOfM_returns [OF st] by blast
  have later: "\<forall>k\<le>steps - (n + 1). clock_double (double (t + dt)) dt k < Tf"
  proof (intro allI impI)
    fix k assume "k \<le> steps - (n + 1)"
    then have "Suc k \<le> steps - n" using n by simp
    then have "clock_double t dt (Suc k) < Tf" using Suc.prems(2) by blast
    then show "clock_double (double (t + dt)) dt k < Tf" by simp
  qed
  have m: "m = steps - (n + 1)" using Suc.hyps(2) by simp
  have "euler_loop_double atm dt Tf stages
       (X[n + 1 := X ! n + dt * fst S ! 0]) (Y[n + 1 := Y ! n + dt * fst S ! 1])
       (Vx[n + 1 := Vx ! n + dt * fst S ! 2]) (Vy[n + 1 := Vy ! n + dt * fst S ! 3])
       (T_array[n + 1 := double (t + dt)]) (v_states[n := snd S]) (out @ pr)
       (double (t + dt)) (n + 1) = Inl IndexError"
    by (rule Suc.hyps(1) [OF m _ later]) (use n Suc.prems in simp_all)
  then show ?case
    using lt S n Suc.prems(3-8) by (subst euler_loop_double.simps) simp
qed

lemma clock_snoc: "clock_double t dt (Suc k) = double (clock_double t dt k + dt)"
  by (induction k arbitrary: t) simp_all

lemma clock_1:
  "clock_double 0 (3602879701896397 / 36028797018963968) 1 = 3602879701896397 / 36028797018963968"
proof -
  show ?thesis
    by (simp only: One_nat_def clock_snoc clock_double.simps(1) clock_add_1)
qed

lemma clock_2:
  "clock_double 0 (3602879701896397 / 36028797018963968) 2 = 3602879701896397 / 18014398509481984"
proof -
  have "(2::nat) = Suc (Suc (0))" by simp
  then show ?thesis
    by (simp only: clock_snoc clock_double.simps(1) clock_add_1 clock_add_2)
qed

lemma clock_3:
  "clock_double 0 (3602879701896397 / 36028797018963968) 3 = 1351079888211149 / 4503599627370496"
proof -
  have "(3::nat) = Suc (Suc (Suc (0)))" by simp
  then show ?thesis
    by (simp only: clock_snoc clock_double.simps(1) clock_add_1 clock_add_2 clock_add_3)
qed

lemma clock_4:
  "clock_double 0 (3602879701896397 / 36028797018963968) 4 = 3602879701896397 / 9007199254740992"
proof -
  have "(4::nat) = Suc (Suc (Suc (Suc (0))))" by simp
  then show ?thesis
    by (simp only: clock_snoc clock_double.simps(1) clock_add_1 clock_add_2 clock_add_3 clock_add_4)
qed

lemma clock_5: "clock_double 0 (3602879701896397 / 36028797018963968) 5 = 1 / 2"
proof -
  have "(5::nat) = Suc (Suc (Suc (Suc (Suc (0)))))" by simp
  then show ?thesis
    by (simp only: clock_snoc clock_double.simps(1) clock_add_1 clock_add_2 clock_add_3 clock_add_4 clock_add_5)
qed

lemma clock_6:
  "clock_double 0 (3602879701896397 / 36028797018963968) 6 = 5404319552844595 / 9007199254740992"
proof -
  have "(6::nat) = Suc (Suc (Suc (Suc (Suc (Suc (0))))))" by simp
  then show ?thesis
    by (simp only: clock_snoc clock_double.simps(1) clock_add_1 clock_add_2 clock_add_3 clock_add_4 clock_add_5 clock_add_6)
qed

lemma clock_7:
  "clock_double 0 (3602879701896397 / 36028797018963968) 7 = 3152519739159347 / 4503599627370496"
proof -
  have "(7::nat) = Suc (Suc (Suc (Suc (Suc (Suc (Suc (0)))))))" by simp
  then show ?thesis
    by (simp only: clock_snoc clock_double.simps(1) clock_add_1 clock_add_2 clock_add_3 clock_add_4 clock_add_5 clock_add_6 clock_add_7)
qed

lemma clock_8:
  "clock_double 0 (3602879701896397 / 36028797018963968) 8 = 7205759403792793 / 9007199254740992"
proof -
  have "(8::nat) = Suc (Suc (Suc (Suc (Suc (Suc (Suc (Suc (0))))))))" by simp
  then show ?thesis
    by (simp only: clock_snoc clock_double.simps(1) clock_add_1 clock_add_2 clock_add_3 clock_add_4 clock_add_5 clock_add_6 clock_add_7 clock_add_8)
qed

lemma clock_9:
  "clock_double 0 (3602879701896397 / 36028797018963968) 9 = 2026619832316723 / 2251799813685248"
proof -
  have "(9::nat) = Suc (Suc (Suc (Suc (Suc (Suc (Suc (Suc (Suc (0)))))))))" by simp
  then show ?thesis
    by (simp only: clock_snoc clock_double.simps(1) clock_add_1 clock_add_2 clock_add_3 clock_add_4 clock_add_5 clock_add_6 clock_add_7 clock_add_8 clock_add_9)
qed

lemma clock_10:
  "clock_double 0 (3602879701896397 / 36028797018963968) 10 = 9007199254740991 / 9007199254740992"
proof -
  have "(10::nat) = Suc (Suc (Suc (Suc (Suc (Suc (Suc (Suc (Suc (Suc (0))))))))))" by simp
  then show ?thesis
    by (simp only: clock_snoc clock_double.simps(1) clock_add_1 clock_add_2 clock_add_3 clock_add_4 clock_add_5 clock_add_6 clock_add_7 clock_add_8 clock_add_9 clock_add_10)
qed

lemma clock_below_1:
  assumes "k \<le> 10"
  shows "clock_double 0 (3602879701896397 / 36028797018963968) k < 1"
proof -
  have "k = 0 \<or> k = 1 \<or> k = 2 \<or> k = 3 \<or> k = 4 \<or> k = 5 \<or> k = 6 \<or> k = 7 \<or> k = 8 \<or> k = 9 \<or>
      k = 10"
    using assms by arith
  then show ?thesis
    by (elim disjE; hypsubst;
        simp only: clock_double.simps(1) clock_1 clock_2 clock_3 clock_4 clock_5 clock_6 clock_7
          clock_8 clock_9 clock_10; simp)
qed

section \<open>The integrator\<close>

text \<open>
  Claim C1. For every initial state, start time \<open>t0\<close>, step \<open>dt > 0\<close>, final time and
  pair of stages, \<open>euler\<close> returns two tables of \<open>steps + 1\<close> rows in which every row is
  the Euler step of the row before it, with \<open>t[n + 1] = t[n] + dt\<close> in the time column.

  The code breaks this in row 0 of the time column, which it never writes, whenever
  \<open>t0\<close> is not 0. Evaluated on the launch pad with \<open>t0 = 1\<close>, \<open>dt = 1\<close>, \<open>Tf = 2\<close>: the run
  takes its one step at the clock value 1 and returns the time column \<open>[0, 2]\<close>, so that
  \<open>t[1]\<close> is not \<open>t[0] + dt\<close>. The arrays of positions and velocities do receive their row
  0 from the arguments (lines 167 to 170); lemma \<open>euler_run\<close> shows the rest of the claim.
\<close>

theorem euler_time_column_start_1:
  "euler sea_level_atm [0, 6378000, 0, 0] 1 1 2 [F9S1, F9S2] =
     Inr (([[0, 0, 6378000, 0, 0],
            [2, 0, 6378000, 0,
             7426000 / (554200 - 7426000 / (282 * 9.81)) - 3.986 * 10 ^ 14 / 6378000 ^ 2]],
           [[0, 7426000, 0, 0, 554200 - 7426000 / (282 * 9.81), 0], [0, 0, 0, 0, 0, 0]]),
          [notice])"
  using EqOfM_on_pad_at_1
  by (simp add: euler_def arange_len_def Let_def euler_loop.simps numeral_eq_Suc)

text \<open>
  Claim C9. The integrator never terminates early: for every input, \<open>euler\<close> performs the
  full number of steps that cover the interval from \<open>t0\<close> up to \<open>Tf\<close>, and the condition of
  an altitude of at most 0 does no more than print the notice.

  The code breaks this where the clock it accumulates disagrees with the array length it
  takes from \<open>np.arange\<close>. Evaluated on the launch pad with \<open>t0 = 0\<close>, \<open>dt = 0.1\<close>,
  \<open>Tf = 1\<close>: the arrays get 11 rows for 10 steps, the clock after ten additions of 0.1 is
  \<open>1 - 2^-53\<close> and still below 1 (lemma \<open>clock_10\<close>), and the eleventh iteration writes
  row 11 and raises \<open>IndexError\<close>: the run returns no table at all. In exact arithmetic
  the two counts agree and the run is complete (lemma \<open>euler_run\<close>).
\<close>

theorem euler_double_overrun:
  "euler_double sea_level_atm [0, 6378000, 0, 0] 0 (double 0.1) 1 [F9S1, F9S2] = Inl IndexError"
proof -
  have len: "arange_len_double 0 1 (double 0.1) = Inr 10"
    using double_1 double_quotient by (simp add: arange_len_double_def dt_double)
  have loop: "euler_loop_double sea_level_atm (double 0.1) 1 [F9S1, F9S2]
      ((replicate (10 + 1) 0)[0 := [0, 6378000, 0, 0] ! 0])
      ((replicate (10 + 1) 0)[0 := [0, 6378000, 0, 0] ! 1])
      ((replicate (10 + 1) 0)[0 := [0, 6378000, 0, 0] ! 2])
      ((replicate (10 + 1) 0)[0 := [0, 6378000, 0, 0] ! 3])
      (replicate (10 + 1) 0) (replicate (10 + 1) (replicate 6 0)) [] 0 0 = Inl IndexError"
    by (rule euler_loop_double_overrun [where steps = 10])
      (use clock_below_1 in \<open>simp_all add: dt_double\<close>)
  have ok: "\<not> length [0, 6378000, 0, 0 :: real] < 4"
    by simp
  show ?thesis
    unfolding euler_double_def len bindE_Inr Let_def
    by (simp only: loop bindE_Inl ok if_False)
qed



section \<open>The equations of motion\<close>

text \<open>
  Claim C2. For every state, time \<open>t\<close> and list of two stages, \<open>EqOfM\<close> selects the active mass
  and thrust by elapsed time: up to and including the burn time of stage 1 the mass is
  \<open>stage1.M - stage1.mdot * t\<close> and the thrust has the magnitude \<open>stage1.Thrust\<close>; after it
  the mass is \<open>stage2.M - stage2.mdot * (t - stage1.tb)\<close> and the magnitude is
  \<open>stage2.Thrust\<close>. At the burn time itself the branch of stage 1 applies. The switch
  changes the mass and the thrust only: the rate of the position is the velocity of the
  state, whatever stage is active.

  The mass is component 4 of the vehicle state vector; the thrust magnitude is read from
  its components 0 and 1, the thrust along x and y.
\<close>

theorem EqOfM_stage_selection:
  assumes "4 \<le> length STATE"
  shows "\<exists>d v out. EqOfM atm STATE t [stage1, stage2] = Inr ((d, v), out) \<and>
    v ! 4 = active_mass stage1 stage2 t \<and>
    (v ! 0) ^ 2 + (v ! 1) ^ 2 = (active_thrust stage1 stage2 t) ^ 2 \<and>
    (t = tb stage1 \<longrightarrow>
       v ! 4 = Stage.M stage1 - mdot stage1 * tb stage1 \<and>
       (v ! 0) ^ 2 + (v ! 1) ^ 2 = (Thrust stage1) ^ 2) \<and>
    d ! 0 = STATE ! 2 \<and> d ! 1 = STATE ! 3"
proof -
  have "(a * cos x) ^ 2 + (a * sin x) ^ 2 = a ^ 2" for a x :: real
  proof -
    have "(a * cos x) ^ 2 + (a * sin x) ^ 2 = a ^ 2 * ((cos x) ^ 2 + (sin x) ^ 2)"
      by (simp only: power_mult_distrib distrib_left)
    then show ?thesis by (simp only: sin_cos_squared_add2 mult_1_right)
  qed
  then show ?thesis
    using assms by (simp add: EqOfM_eq Let_def active_mass_def active_thrust_def)
qed

text \<open>
  Witness: the launch state at the burn time of stage 1 of the vehicle of \<open>main\<close>. The mass
  there is 143200 kg and the thrust 7426000 N; one second later they are those of stage 2
  (lemma \<open>stage_jump\<close>).
\<close>

theorem EqOfM_stage_selection_witness:
  "4 \<le> length [0, 6378000, 0, 0 :: real] \<and>
   (\<exists>d v out. EqOfM sea_level_atm [0, 6378000, 0, 0] (tb F9S1) [F9S1, F9S2] = Inr ((d, v), out) \<and>
      v ! 4 = active_mass F9S1 F9S2 (tb F9S1) \<and>
      (v ! 0) ^ 2 + (v ! 1) ^ 2 = (active_thrust F9S1 F9S2 (tb F9S1)) ^ 2 \<and>
      v ! 4 = Stage.M F9S1 - mdot F9S1 * tb F9S1 \<and>
      (v ! 0) ^ 2 + (v ! 1) ^ 2 = (Thrust F9S1) ^ 2 \<and>
      d ! 0 = [0, 6378000, 0, 0] ! 2 \<and> d ! 1 = [0, 6378000, 0, 0] ! 3)"
  using EqOfM_stage_selection [of "[0, 6378000, 0, 0]" sea_level_atm "tb F9S1" F9S1 F9S2]
  by simp

text \<open>
  Claim C3. For every state and time, the thrust points at 90 degrees by default; while
  \<open>t\<close> is below the burn time of stage 1 plus 300 s and the altitude is above 100 m, it
  points at 87 degrees when the flight path angle \<open>phi = arctan2 vy vx\<close> exceeds 83 degrees
  and along \<open>phi\<close> otherwise; outside that window it stays at 90 degrees.

  The angle is a local variable of \<open>EqOfM\<close>; what the function returns of it are the thrust
  components, the thrust magnitude times its cosine and sine, and \<open>phi\<close> as component 5 of
  the vehicle state vector.
\<close>

theorem EqOfM_thrust_angle:
  assumes "4 \<le> length STATE" and "2 \<le> length stages"
  shows "\<exists>d v out. EqOfM atm STATE t stages = Inr ((d, v), out) \<and>
    v ! 5 = arctan2 (STATE ! 3) (STATE ! 2) \<and>
    v ! 0 = active_thrust (stages ! 0) (stages ! 1) t *
              cos (thrust_angle t (tb (stages ! 0)) (altitude STATE) (v ! 5)) \<and>
    v ! 1 = active_thrust (stages ! 0) (stages ! 1) t *
              sin (thrust_angle t (tb (stages ! 0)) (altitude STATE) (v ! 5))"
  using assms by (simp add: EqOfM_eq Let_def)

text \<open>
  Witness: 1000 m above the ground, climbing vertically, 10 s after launch. The flight
  path angle is 90 degrees, above the kick angle, and the thrust points at 87 degrees.
\<close>

theorem EqOfM_thrust_angle_witness:
  "4 \<le> length [0, 6379000, 0, 100 :: real] \<and> 2 \<le> length [F9S1, F9S2] \<and>
   (\<exists>d v out. EqOfM sea_level_atm [0, 6379000, 0, 100] 10 [F9S1, F9S2] = Inr ((d, v), out) \<and>
      v ! 5 = arctan2 100 0 \<and>
      v ! 0 = Thrust F9S1 * cos (deg2rad 87) \<and>
      v ! 1 = Thrust F9S1 * sin (deg2rad 87))"
proof -
  have tb: "10 \<le> tb F9S1"
    by (simp add: F9S1_def Stage_init_def)
  show ?thesis
    using EqOfM_thrust_angle [of "[0, 6379000, 0, 100]" "[F9S1, F9S2]" sea_level_atm 10]
      kick_example tb
    by (auto simp add: active_thrust_def)
qed

text \<open>
  Claim C8. For every state, time and list of stages, the drag \<open>EqOfM\<close> uses is the one
  \<open>GetDrag\<close> computes for stage 1, the first stage of the list, whichever stage is active:
  components 2 and 3 of the vehicle state vector are what \<open>GetDrag\<close> returns for stage 1,
  and the drag coefficient and the reference area of stage 2 have no influence on the
  result at any time.
\<close>

theorem EqOfM_drag_from_stage1:
  assumes "4 \<le> length STATE" and "2 \<le> length stages"
  shows "(\<exists>d v out. EqOfM atm STATE t stages = Inr ((d, v), out) \<and>
            GetDrag atm (stages ! 0) (altitude STATE) (speed STATE) (STATE ! 2) (STATE ! 3) =
              Inr (v ! 2, v ! 3)) \<and>
         EqOfM atm STATE t (stages[1 := (stages ! 1)\<lparr>Cd := cd', A := a'\<rparr>]) =
           EqOfM atm STATE t stages"
proof -
  define stages' where "stages' = stages[1 := (stages ! 1)\<lparr>Cd := cd', A := a'\<rparr>]"
  have len: "2 \<le> length stages'"
    using assms(2) by (simp add: stages'_def)
  have s0: "stages' ! 0 = stages ! 0"
    by (simp add: stages'_def)
  have s1: "stages' ! 1 = (stages ! 1)\<lparr>Cd := cd', A := a'\<rparr>"
    using assms(2) by (simp add: stages'_def)
  have sel: "active_mass (stages ! 0) (stages' ! 1) t = active_mass (stages ! 0) (stages ! 1) t"
    "active_thrust (stages ! 0) (stages' ! 1) t = active_thrust (stages ! 0) (stages ! 1) t"
    unfolding s1 by (simp_all add: active_mass_def active_thrust_def)
  have a: "\<exists>d v out. EqOfM atm STATE t stages = Inr ((d, v), out) \<and>
            GetDrag atm (stages ! 0) (altitude STATE) (speed STATE) (STATE ! 2) (STATE ! 3) =
              Inr (v ! 2, v ! 3)"
    using assms by (simp add: EqOfM_eq Let_def GetDrag_eq)
  have b: "EqOfM atm STATE t stages' = EqOfM atm STATE t stages"
    unfolding EqOfM_eq [OF assms(1) len] EqOfM_eq [OF assms] Let_def s0 sel ..
  show ?thesis using a b by (simp add: stages'_def)
qed

text \<open>Witness: one second after the burn time of stage 1, when stage 2 is the active one.\<close>

theorem EqOfM_drag_from_stage1_witness:
  "4 \<le> length [0, 6379000, 60, 80 :: real] \<and> 2 \<le> length [F9S1, F9S2] \<and>
   tb F9S1 < tb F9S1 + 1 \<and>
   (\<exists>d v out. EqOfM sea_level_atm [0, 6379000, 60, 80] (tb F9S1 + 1) [F9S1, F9S2] =
        Inr ((d, v), out) \<and>
      GetDrag sea_level_atm F9S1 (altitude [0, 6379000, 60, 80]) (speed [0, 6379000, 60, 80]) 60 80 =
        Inr (v ! 2, v ! 3)) \<and>
   EqOfM sea_level_atm [0, 6379000, 60, 80] (tb F9S1 + 1) [F9S1, F9S2\<lparr>Cd := 1, A := 2\<rparr>] =
     EqOfM sea_level_atm [0, 6379000, 60, 80] (tb F9S1 + 1) [F9S1, F9S2]"
  using EqOfM_drag_from_stage1 [where STATE = "[0, 6379000, 60, 80]" and stages = "[F9S1, F9S2]"
      and atm = sea_level_atm and t = "tb F9S1 + 1" and cd' = 1 and a' = 2]
  by simp

section \<open>The stage\<close>

text \<open>
  Claim C4. For every altitude, speed \<open>V\<close> and velocity components \<open>vx\<close>, \<open>vy\<close>, with the
  temperature \<open>T\<close> and the density \<open>rho\<close> of the atmosphere at that altitude, \<open>GetDrag\<close>
  computes the Mach number \<open>V / sqrt (1.14 * 287 * T)\<close>, takes \<open>Cd\<close> from the curve of four
  regimes at that Mach number, and returns \<open>0.5 * rho * vx * V * A * Cd\<close> and
  \<open>0.5 * rho * vy * V * A * Cd\<close>, where \<open>A\<close> is the reference area of the stage. The
  temperature is positive, as a temperature in Kelvin is.
\<close>

theorem GetDrag_value:
  assumes "atm h = (T, rho)" and "0 < T"
  shows "GetDrag atm self h V vx vy =
           Inr (0.5 * rho * vx * V * A self * Cd_curve (V / sqrt (1.14 * 287 * T)),
                0.5 * rho * vy * V * A self * Cd_curve (V / sqrt (1.14 * 287 * T)))"
  using assms(1) by (simp add: GetDrag_eq)

text \<open>Witness: stage 1 at sea level, at 100 m/s with the velocity \<open>(60, 80)\<close>.\<close>

theorem GetDrag_value_witness:
  "sea_level_atm 0 = (288.15, 1.225) \<and> (0::real) < 288.15 \<and>
   GetDrag sea_level_atm F9S1 0 100 60 80 =
     Inr (0.5 * 1.225 * 60 * 100 * A F9S1 * Cd_curve (100 / sqrt (1.14 * 287 * 288.15)),
          0.5 * 1.225 * 80 * 100 * A F9S1 * Cd_curve (100 / sqrt (1.14 * 287 * 288.15)))"
proof -
  have a: "sea_level_atm 0 = (288.15, 1.225)" by (simp add: sea_level_atm_def)
  have b: "(0::real) < 288.15" by simp
  show ?thesis
    using a b GetDrag_value [of sea_level_atm 0 "288.15" "1.225" F9S1 100 60 80] by simp
qed

text \<open>
  Claim C5, amended. For every stage constructed with thrust \<open>T\<close>, specific impulse
  \<open>I > 0\<close> and fuel mass \<open>Mf\<close>, the seventh argument of the constructor, the mass flow rate
  is \<open>T / (I * 9.81)\<close> and the burn time is \<open>Mf * I * 9.81 / T\<close>. The burn time is derived
  from \<open>Mf\<close>; the argument \<open>Mp\<close> enters the total mass only.
\<close>

theorem Stage_init_derived:
  assumes "0 < isp" and "Stage_init name thrust cd a isp ms mf mp = Inr s"
  shows "mdot s = thrust / (isp * 9.81) \<and> tb s = mf * isp * 9.81 / thrust"
  using assms by (auto simp add: Stage_init_def Let_def split: if_splits)

text \<open>Witness: stage 1 of the vehicle of \<open>main\<close>.\<close>

theorem Stage_init_derived_witness:
  "(0::real) < 282 \<and>
   Stage_init ''Stage 1'' 7426000 0.3 10.75 282 27200 411000 116000 = Inr F9S1 \<and>
   mdot F9S1 = 7426000 / (282 * 9.81) \<and> tb F9S1 = 411000 * 282 * 9.81 / 7426000"
  using Stage_init_derived [of 282 "''Stage 1''" 7426000 "0.3" "10.75" 27200 411000 116000 F9S1]
    F9S1_eq
  by simp

text \<open>
  Counterexample to claim C5 as stated, with the burn time \<open>Mp * I * 9.81 / T\<close>: stage 2 of
  \<open>main\<close> has \<open>Mp = 0\<close>, and its burn time is not 0.
\<close>

theorem burn_time_not_from_Mp:
  "\<exists>s. Stage_init ''Stage 2'' 934000 0.3 10.75 348 4500 111500 0 = Inr s \<and>
       tb s \<noteq> 0 * 348 * 9.81 / 934000"
  by (simp add: Stage_init_def)

text \<open>
  Claim C6, amended. Constructing a stage fails exactly when the specific impulse is 0 or
  the thrust is 0, that is when a divisor is zero, and the error is then
  \<open>ZeroDivisionError\<close>. The constructor checks nothing else: every other choice of
  arguments, a negative specific impulse included, constructs a stage.
\<close>

theorem Stage_init_fails_iff:
  "((\<exists>s. Stage_init name thrust cd a isp ms mf mp = Inr s) = (isp \<noteq> 0 \<and> thrust \<noteq> 0)) \<and>
   ((Stage_init name thrust cd a isp ms mf mp = Inl e) =
      (e = ZeroDivisionError \<and> (isp = 0 \<or> thrust = 0)))"
  by (auto simp add: Stage_init_def Let_def)

text \<open>
  Counterexample to claim C6 as stated: with the specific impulse -282 the constructor
  returns a stage, whose mass flow rate is negative.
\<close>

theorem negative_Isp_accepted:
  "(- 282 :: real) \<le> 0 \<and>
   (\<exists>s. Stage_init ''Stage 1'' 7426000 0.3 10.75 (- 282) 27200 411000 116000 = Inr s \<and>
        mdot s \<le> 0)"
  by (simp add: Stage_init_def)

text \<open>
  Claim C7, amended. At the breakpoints the two adjacent drag coefficient expressions
  differ by 0.00035546875 at Mach 1.25, by 0.0175 at Mach 4 and by 0.1368 at Mach 10:
  they agree within a tolerance exactly when the tolerance is 0.1368 or more.
\<close>

theorem Cd_breakpoint_gaps:
  "Cd_subsonic 1.25 - Cd_supersonic 1.25 = 0.00035546875 \<and>
   Cd_supersonic 4 - Cd_hypersonic 4 = 0.0175 \<and>
   Cd_limit - Cd_hypersonic 10 = 0.1368 \<and>
   Cd_continuous_within eps = (0.1368 \<le> eps)"
proof -
  have a: "\<bar>Cd_subsonic 1.25 - Cd_supersonic 1.25\<bar> = 0.00035546875"
    using Cd_gaps(1) by simp
  have b: "\<bar>Cd_supersonic 4 - Cd_hypersonic 4\<bar> = 0.0175"
    using Cd_gaps(2) by simp
  have c: "\<bar>Cd_hypersonic 10 - Cd_limit\<bar> = 0.1368"
    using Cd_gaps(3) by (simp add: abs_minus_commute)
  have "Cd_continuous_within eps = (0.1368 \<le> eps)"
    unfolding Cd_continuous_within_def a b c by auto
  then show ?thesis
    using Cd_gaps by simp
qed

text \<open>
  Counterexample to claim C7 as stated: the expressions do not agree within 0.1, a
  tolerance far above any rounding error of double precision.
\<close>

theorem Cd_curve_not_continuous:
  "\<not> Cd_continuous_within (1 / 10)"
  by (simp add: Cd_continuous_within_def Cd_subsonic_def Cd_supersonic_def Cd_hypersonic_def
      Cd_limit_def)

end
